theory Spec2Isabelle
  imports Main "HOL-Library.Word"
begin

section \<open>The gateway protocol: data model of protocol.go\<close>

text \<open>
  The Go package \<^verbatim>\<open>lorawan/gateway/protocol\<close> declares the message types of the
  SemTech packet-forwarder protocol and the constants of its header. A Go \<^verbatim>\<open>byte\<close> is
  an 8-bit word, a \<^verbatim>\<open>[]byte\<close> a list of them.
\<close>

type_synonym byte = "8 word"

subsection \<open>The command identifiers\<close>

text \<open>
  \<^verbatim>\<open>
  const (
      PUSH_DATA byte = iota
      PUSH_ACK
      PULL_DATA
      PULL_RESP
      PULL_ACK
  )
  const VERSION = 0x01
  \<close>
  Inside a \<^verbatim>\<open>const\<close> block \<^verbatim>\<open>iota\<close> is the index of the line, counted from 0, and a
  line without an expression repeats the expression (and the type) of the line before. So
  every constant of the block is \<^verbatim>\<open>byte(iota)\<close> at its own line.
\<close>

definition command_block :: "string list" where
  "command_block = [''PUSH_DATA'', ''PUSH_ACK'', ''PULL_DATA'', ''PULL_RESP'', ''PULL_ACK'']"

fun line_of :: "string \<Rightarrow> string list \<Rightarrow> nat" where
  "line_of name [] = 0"
| "line_of name (l # ls) = (if l = name then 0 else Suc (line_of name ls))"

definition iota :: "string \<Rightarrow> byte" where
  "iota name = of_nat (line_of name command_block)"

definition PUSH_DATA :: byte where
  "PUSH_DATA = iota ''PUSH_DATA''"

definition PUSH_ACK :: byte where
  "PUSH_ACK = iota ''PUSH_ACK''"

definition PULL_DATA :: byte where
  "PULL_DATA = iota ''PULL_DATA''"

definition PULL_RESP :: byte where
  "PULL_RESP = iota ''PULL_RESP''"

definition PULL_ACK :: byte where
  "PULL_ACK = iota ''PULL_ACK''"

definition VERSION :: byte where
  "VERSION = 0x01"

section \<open>Properties\<close>

subsection \<open>The header constants\<close>

lemma command_values [simp]:
  "PUSH_DATA = 0" "PUSH_ACK = 1" "PULL_DATA = 2" "PULL_RESP = 3" "PULL_ACK = 4"
  by (simp_all add: PUSH_DATA_def PUSH_ACK_def PULL_DATA_def PULL_RESP_def PULL_ACK_def
      iota_def command_block_def)

text \<open>
  Claim C9. The five identifier constants take the consecutive byte values PUSH_DATA = 0,
  PUSH_ACK = 1, PULL_DATA = 2, PULL_RESP = 3 and PULL_ACK = 4, and VERSION is 1.
\<close>

theorem identifier_constants:
  "PUSH_DATA = (0 :: byte) \<and> PUSH_ACK = (1 :: byte) \<and> PULL_DATA = (2 :: byte)
   \<and> PULL_RESP = (3 :: byte) \<and> PULL_ACK = (4 :: byte) \<and> VERSION = (1 :: byte)"
  by (simp add: PUSH_DATA_def PUSH_ACK_def PULL_DATA_def PULL_RESP_def PULL_ACK_def
      VERSION_def iota_def command_block_def)

end
